theory Spec2Isabelle
  imports Main "HOL-Library.Multiset" "HOL-Library.AList"
begin

text \<open>
  The program is \<open>main.py\<close>, a quiz trainer that checks free-text answers. This
  theory embeds its answer checking: the allow-lists and \<open>_validate_ast\<close>,
  \<open>safe_eval\<close>, the checker factories, the two inline checkers that run an answer
  with \<open>exec\<close>, and the \<open>try\<close> around the checker call in \<open>run_tasks\<close>.
  What the program takes from the Python library (\<open>str.strip\<close>, \<open>str.split\<close>,
  \<open>ast.parse\<close>, \<open>ast.walk\<close>, \<open>eval\<close>, \<open>exec\<close>) is modelled from the
  library's documented behaviour.
\<close>

section \<open>Strings\<close>

text \<open>
  A Python \<open>str\<close> is modelled as a \<open>string\<close>, read as the sequence of its code points
  below 256. \<open>py_isspace\<close> is \<open>str.isspace\<close> on one such code point: the code points
  9 to 13, 28 to 32, 133 and 160.
\<close>

definition py_isspace :: "char \<Rightarrow> bool" where
  "py_isspace c = (of_char c \<in> {9, 10, 11, 12, 13, 28, 29, 30, 31, 32, 133, 160 :: nat})"

text \<open>\<open>s.strip()\<close>: whitespace removed at both ends.\<close>

definition strip :: "string \<Rightarrow> string" where
  "strip s = rev (dropWhile py_isspace (rev (dropWhile py_isspace s)))"

text \<open>\<open>s.split(sep)\<close> for a one-character separator; the empty string gives one empty part.\<close>

fun split :: "char \<Rightarrow> string \<Rightarrow> string list" where
  "split sep [] = [[]]"
| "split sep (c # cs) =
     (if c = sep then [] # split sep cs
      else (case split sep cs of [] \<Rightarrow> [[c]] | w # ws \<Rightarrow> (c # w) # ws))"

text \<open>\<open>sep.join(parts)\<close>.\<close>

fun join :: "string \<Rightarrow> string list \<Rightarrow> string" where
  "join sep [] = []"
| "join sep [w] = w"
| "join sep (w # v # ws) = w @ sep @ join sep (v # ws)"

section \<open>Syntax trees\<close>

text \<open>
  The node classes of the \<^verbatim>\<open>ast\<close> module (Python 3.9 and later; \<open>Index\<close> and
  \<open>ExtSlice\<close> are the subscript wrappers of Python 3.8). Every expression class is
  there, and of the statement classes \<open>Module\<close>, \<open>Expr\<close> and \<open>Assign\<close>. A node
  keeps its fields in the order of the class's \<open>_fields\<close>; fields that hold no node
  and that the program never reads (\<open>type_ignores\<close>, \<open>type_comment\<close>, \<open>kind\<close>) are
  left out. The classes \<open>Not\<close> and \<open>Pow\<close> are the constructors \<open>NotOp\<close> and
  \<open>PowOp\<close>.

  Operators and expression contexts are nodes of their own in Python (\<open>ast.walk\<close>
  yields them): the constructors \<open>Operator\<close>, \<open>Unaryop\<close>, \<open>Boolop\<close>, \<open>Cmpop\<close> and
  \<open>Context\<close> wrap them as nodes.
\<close>

datatype expr_context = Load | Store | Del

datatype operator =
  Add | Sub | Mult | MatMult | Div | Mod | PowOp | LShift | RShift | BitOr | BitXor | BitAnd | FloorDiv

datatype unaryop = Invert | NotOp | UAdd | USub

datatype boolop = And | Or

datatype cmpop = Eq | NotEq | Lt | LtE | Gt | GtE | Is | IsNot | In | NotIn

datatype const_value =
  CNone | CBool bool | CInt int | CStr string | CBytes "nat list" | CFloat string | CEllipsis

datatype (plugins only: code size) ast =
    Module "ast list"
  | Expression ast
  | Expr ast
  | Assign "ast list" ast
  | BoolOp boolop "ast list"
  | NamedExpr ast ast
  | BinOp ast operator ast
  | UnaryOp unaryop ast
  | Lambda ast ast
  | IfExp ast ast ast
  | Dict "ast option list" "ast list"
  | Set "ast list"
  | ListComp ast "ast list"
  | SetComp ast "ast list"
  | DictComp ast ast "ast list"
  | GeneratorExp ast "ast list"
  | Await ast
  | Yield "ast option"
  | YieldFrom ast
  | Compare ast "cmpop list" "ast list"
  | Call ast "ast list" "ast list"
  | FormattedValue ast int "ast option"
  | JoinedStr "ast list"
  | Constant const_value
  | Attribute ast string expr_context
  | Subscript ast ast expr_context
  | Starred ast expr_context
  | Name string expr_context
  | List "ast list" expr_context
  | Tuple "ast list" expr_context
  | Slice "ast option" "ast option" "ast option"
  | Index ast
  | ExtSlice "ast list"
  | Comprehension ast ast "ast list" int
  | Keyword "string option" ast
  | Arguments "ast list" "ast list" "ast option" "ast list" "ast option list" "ast option" "ast list"
  | Arg string "ast option"
  | Operator operator
  | Unaryop unaryop
  | Boolop boolop
  | Cmpop cmpop
  | Context expr_context

text \<open>\<open>type(node).__name__\<close>.\<close>

fun class_name :: "ast \<Rightarrow> string" where
  "class_name (Module _) = ''Module''"
| "class_name (Expression _) = ''Expression''"
| "class_name (Expr _) = ''Expr''"
| "class_name (Assign _ _) = ''Assign''"
| "class_name (BoolOp _ _) = ''BoolOp''"
| "class_name (NamedExpr _ _) = ''NamedExpr''"
| "class_name (BinOp _ _ _) = ''BinOp''"
| "class_name (UnaryOp _ _) = ''UnaryOp''"
| "class_name (Lambda _ _) = ''Lambda''"
| "class_name (IfExp _ _ _) = ''IfExp''"
| "class_name (Dict _ _) = ''Dict''"
| "class_name (Set _) = ''Set''"
| "class_name (ListComp _ _) = ''ListComp''"
| "class_name (SetComp _ _) = ''SetComp''"
| "class_name (DictComp _ _ _) = ''DictComp''"
| "class_name (GeneratorExp _ _) = ''GeneratorExp''"
| "class_name (Await _) = ''Await''"
| "class_name (Yield _) = ''Yield''"
| "class_name (YieldFrom _) = ''YieldFrom''"
| "class_name (Compare _ _ _) = ''Compare''"
| "class_name (Call _ _ _) = ''Call''"
| "class_name (FormattedValue _ _ _) = ''FormattedValue''"
| "class_name (JoinedStr _) = ''JoinedStr''"
| "class_name (Constant _) = ''Constant''"
| "class_name (Attribute _ _ _) = ''Attribute''"
| "class_name (Subscript _ _ _) = ''Subscript''"
| "class_name (Starred _ _) = ''Starred''"
| "class_name (Name _ _) = ''Name''"
| "class_name (List _ _) = ''List''"
| "class_name (Tuple _ _) = ''Tuple''"
| "class_name (Slice _ _ _) = ''Slice''"
| "class_name (Index _) = ''Index''"
| "class_name (ExtSlice _) = ''ExtSlice''"
| "class_name (Comprehension _ _ _ _) = ''comprehension''"
| "class_name (Keyword _ _) = ''keyword''"
| "class_name (Arguments _ _ _ _ _ _ _) = ''arguments''"
| "class_name (Arg _ _) = ''arg''"
| "class_name (Operator op) =
     (case op of Add \<Rightarrow> ''Add'' | Sub \<Rightarrow> ''Sub'' | Mult \<Rightarrow> ''Mult'' | MatMult \<Rightarrow> ''MatMult''
      | Div \<Rightarrow> ''Div'' | Mod \<Rightarrow> ''Mod'' | PowOp \<Rightarrow> ''Pow'' | LShift \<Rightarrow> ''LShift''
      | RShift \<Rightarrow> ''RShift'' | BitOr \<Rightarrow> ''BitOr'' | BitXor \<Rightarrow> ''BitXor''
      | BitAnd \<Rightarrow> ''BitAnd'' | FloorDiv \<Rightarrow> ''FloorDiv'')"
| "class_name (Unaryop op) =
     (case op of Invert \<Rightarrow> ''Invert'' | NotOp \<Rightarrow> ''Not'' | UAdd \<Rightarrow> ''UAdd'' | USub \<Rightarrow> ''USub'')"
| "class_name (Boolop op) = (case op of And \<Rightarrow> ''And'' | Or \<Rightarrow> ''Or'')"
| "class_name (Cmpop op) =
     (case op of Eq \<Rightarrow> ''Eq'' | NotEq \<Rightarrow> ''NotEq'' | Lt \<Rightarrow> ''Lt'' | LtE \<Rightarrow> ''LtE''
      | Gt \<Rightarrow> ''Gt'' | GtE \<Rightarrow> ''GtE'' | Is \<Rightarrow> ''Is'' | IsNot \<Rightarrow> ''IsNot''
      | In \<Rightarrow> ''In'' | NotIn \<Rightarrow> ''NotIn'')"
| "class_name (Context c) = (case c of Load \<Rightarrow> ''Load'' | Store \<Rightarrow> ''Store'' | Del \<Rightarrow> ''Del'')"

text \<open>
  \<open>ast.iter_child_nodes(node)\<close>: for every field of the node, in order, the node it
  holds, or the nodes of the list it holds; \<open>None\<close> holds no node.
\<close>

fun present :: "'a option \<Rightarrow> 'a list" where
  "present None = []"
| "present (Some x) = [x]"

fun iter_child_nodes :: "ast \<Rightarrow> ast list" where
  "iter_child_nodes (Module body) = body"
| "iter_child_nodes (Expression body) = [body]"
| "iter_child_nodes (Expr v) = [v]"
| "iter_child_nodes (Assign targets v) = targets @ [v]"
| "iter_child_nodes (BoolOp op vs) = Boolop op # vs"
| "iter_child_nodes (NamedExpr target v) = [target, v]"
| "iter_child_nodes (BinOp l op r) = [l, Operator op, r]"
| "iter_child_nodes (UnaryOp op operand) = [Unaryop op, operand]"
| "iter_child_nodes (Lambda args body) = [args, body]"
| "iter_child_nodes (IfExp test body orelse) = [test, body, orelse]"
| "iter_child_nodes (Dict keys vs) = concat (map present keys) @ vs"
| "iter_child_nodes (Set elts) = elts"
| "iter_child_nodes (ListComp elt generators) = elt # generators"
| "iter_child_nodes (SetComp elt generators) = elt # generators"
| "iter_child_nodes (DictComp k v generators) = k # v # generators"
| "iter_child_nodes (GeneratorExp elt generators) = elt # generators"
| "iter_child_nodes (Await v) = [v]"
| "iter_child_nodes (Yield v) = present v"
| "iter_child_nodes (YieldFrom v) = [v]"
| "iter_child_nodes (Compare l ops comparators) = l # map Cmpop ops @ comparators"
| "iter_child_nodes (Call func args keywords) = func # args @ keywords"
| "iter_child_nodes (FormattedValue v conversion format_spec) = v # present format_spec"
| "iter_child_nodes (JoinedStr vs) = vs"
| "iter_child_nodes (Constant c) = []"
| "iter_child_nodes (Attribute v attr ctx) = [v, Context ctx]"
| "iter_child_nodes (Subscript v sl ctx) = [v, sl, Context ctx]"
| "iter_child_nodes (Starred v ctx) = [v, Context ctx]"
| "iter_child_nodes (Name ident ctx) = [Context ctx]"
| "iter_child_nodes (List elts ctx) = elts @ [Context ctx]"
| "iter_child_nodes (Tuple elts ctx) = elts @ [Context ctx]"
| "iter_child_nodes (Slice lower upper step) = present lower @ present upper @ present step"
| "iter_child_nodes (Index v) = [v]"
| "iter_child_nodes (ExtSlice dims) = dims"
| "iter_child_nodes (Comprehension target iter ifs is_async) = target # iter # ifs"
| "iter_child_nodes (Keyword arg v) = [v]"
| "iter_child_nodes (Arguments posonlyargs args vararg kwonlyargs kw_defaults kwarg defaults) =
     posonlyargs @ args @ present vararg @ kwonlyargs @ concat (map present kw_defaults)
     @ present kwarg @ defaults"
| "iter_child_nodes (Arg arg annotation) = present annotation"
| "iter_child_nodes (Operator op) = []"
| "iter_child_nodes (Unaryop op) = []"
| "iter_child_nodes (Boolop op) = []"
| "iter_child_nodes (Cmpop op) = []"
| "iter_child_nodes (Context c) = []"

text \<open>
  \<open>ast.walk(tree)\<close> takes the first node of a queue that starts as \<open>[tree]\<close>,
  appends its children to the queue, and yields it:
  \<^verbatim>\<open>todo = deque([node])
  while todo:
      node = todo.popleft()
      todo.extend(iter_child_nodes(node))
      yield node\<close>
  \<open>walk todo\<close> is the list of the nodes yielded from the queue \<open>todo\<close>. It
  terminates because every child ranks below its parent (\<open>node_rank\<close>), so each step
  makes the queue smaller in the multiset order.
\<close>

definition node_rank :: "ast \<Rightarrow> nat" where
  "node_rank n = 2 * size n + (if iter_child_nodes n = [] then 0 else 1)"

function walk :: "ast list \<Rightarrow> ast list" where
  "walk [] = []"
| "walk (node # todo) = node # walk (todo @ iter_child_nodes node)"
  by pat_completeness auto
termination
proof (relation "inv_image (mult (measure node_rank)) mset")
  show "wf (inv_image (mult (measure node_rank)) mset)"
    by (intro wf_inv_image wf_mult wf_measure)
next
  fix node :: ast and todo :: "ast list"
  have opt: "c \<in> set (present x) \<longleftrightarrow> x = Some c" for c :: ast and x
    by (cases x) auto
  have in_list: "size x < Suc (size_list size xs)" if "x \<in> set xs" for x :: ast and xs
    using that by (induction xs) auto
  have in_opts: "size x < Suc (size_list (size_option size) xs)" if "Some x \<in> set xs"
    for x :: ast and xs
    using that by (induction xs) auto
  have smaller: "size c < size node \<or> (iter_child_nodes c = [] \<and> size c = 0)"
    if "c \<in> set (iter_child_nodes node)" for c
    using that by (cases node) (auto simp: opt dest: in_list in_opts)
  have "node_rank c < node_rank node" if "c \<in> set (iter_child_nodes node)" for c
    using that smaller [OF that] by (auto simp: node_rank_def)
  then have "\<forall>b. b \<in># mset (iter_child_nodes node) \<longrightarrow> (b, node) \<in> measure node_rank"
    by simp
  then have "(mset todo + mset (iter_child_nodes node), add_mset node (mset todo))
          \<in> mult1 (measure node_rank)"
    unfolding mult1_def by blast
  then show "(todo @ iter_child_nodes node, node # todo)
          \<in> inv_image (mult (measure node_rank)) mset"
    by (simp add: mult_def)
qed

section \<open>Values, objects and exceptions\<close>

text \<open>
  Python values. Lists and bytearrays are mutable objects: they live in a heap, a list
  of objects addressed by position, and a value refers to them by address (\<open>PRef\<close>),
  so that two names can share one object. \<open>alloc\<close> creates an object at the next
  free address. Floats, sets, dictionaries and user-defined classes are not modelled.
\<close>

datatype pyval =
    PNone
  | PBool bool
  | PInt int
  | PStr string
  | PBytes "nat list"
  | PTuple "pyval list"
  | PBuiltin string
  | PRef nat

datatype pyobj = OList "pyval list" | OBytearray "nat list"

type_synonym heap = "pyobj list"

definition alloc :: "heap \<Rightarrow> pyobj \<Rightarrow> nat \<times> heap" where
  "alloc h obj = (length h, h @ [obj])"

definition deref :: "heap \<Rightarrow> nat \<Rightarrow> pyobj option" where
  "deref h a = (if a < length h then Some (h ! a) else None)"

text \<open>
  An exception is its class and its argument. The class is held as its method
  resolution order, the names of the class and of its base classes up to \<open>object\<close>:
  \<open>isinstance(e, C)\<close> holds when \<open>C\<close> is among them. The arguments \<open>main.py\<close> raises
  are Russian texts; each of its five templates is a constructor holding the name the
  template interpolates:
  \<^item> \<open>Empty_expression\<close>: "empty expression" (\<open>safe_eval\<close>);
  \<^item> \<open>Disallowed_element cls\<close>: "disallowed syntax element: cls";
  \<^item> \<open>Disallowed_call f\<close>: "disallowed call: f()";
  \<^item> \<open>Only_simple_calls\<close>: "only simple calls of built-in functions are allowed";
  \<^item> \<open>Disallowed_name x\<close>: "disallowed name: x";
  \<^item> \<open>Disallowed_env_name k\<close>: "disallowed environment variable name: k".

  \<open>Library_text\<close> is the text of an exception the Python library raises.
  \<open>is_Exception e\<close> is \<open>isinstance(e, Exception)\<close>, which is what
  \<open>except Exception\<close> catches; \<open>SystemExit\<close>, \<open>KeyboardInterrupt\<close> and every other
  class that derives from \<open>BaseException\<close> only are not caught.
\<close>

datatype exn_text =
    Empty_expression
  | Disallowed_element string
  | Disallowed_call string
  | Only_simple_calls
  | Disallowed_name string
  | Disallowed_env_name string
  | Library_text string

datatype exn = Exn "string list" exn_text

definition ValueError_class :: "string list" where
  "ValueError_class = [''ValueError'', ''Exception'', ''BaseException'', ''object'']"

definition ValueError :: "exn_text \<Rightarrow> exn" where
  "ValueError m = Exn ValueError_class m"

fun is_Exception :: "exn \<Rightarrow> bool" where
  "is_Exception (Exn mro m) = (''Exception'' \<in> set mro)"

section \<open>The allow-lists and the validator\<close>

text \<open>
  A dictionary from names to values is an association list in insertion order.
  \<open>ALLOWED_NODES\<close> is a tuple of node classes, held here as the set of their names:
  \<open>isinstance(node, ALLOWED_NODES)\<close> is \<open>class_name node \<in> ALLOWED_NODES\<close>, since no
  class of a parsed tree derives from another one.
\<close>

type_synonym env = "(string \<times> pyval) list"

definition ALLOWED_BUILTINS :: env where
  "ALLOWED_BUILTINS =
     [(''None'', PNone), (''True'', PBool True), (''False'', PBool False),
      (''len'', PBuiltin ''len''), (''sum'', PBuiltin ''sum''), (''min'', PBuiltin ''min''),
      (''max'', PBuiltin ''max''), (''sorted'', PBuiltin ''sorted''),
      (''range'', PBuiltin ''range''), (''set'', PBuiltin ''set''), (''dict'', PBuiltin ''dict''),
      (''list'', PBuiltin ''list''), (''tuple'', PBuiltin ''tuple''),
      (''bytes'', PBuiltin ''bytes''), (''bytearray'', PBuiltin ''bytearray'')]"

definition ALLOWED_NODES :: "string set" where
  "ALLOWED_NODES =
     {''Module'', ''Expr'',
      ''Load'', ''Store'', ''Del'',
      ''Name'', ''Constant'',
      ''Tuple'', ''List'', ''Set'', ''Dict'',
      ''UnaryOp'', ''UAdd'', ''USub'', ''Not'', ''Invert'',
      ''BinOp'', ''Add'', ''Sub'', ''Mult'', ''Div'', ''FloorDiv'', ''Mod'', ''Pow'',
      ''MatMult'', ''BitAnd'', ''BitOr'', ''BitXor'', ''LShift'', ''RShift'',
      ''BoolOp'', ''And'', ''Or'',
      ''Compare'', ''Eq'', ''NotEq'', ''Lt'', ''LtE'', ''Gt'', ''GtE'',
      ''Is'', ''IsNot'', ''In'', ''NotIn'',
      ''Call'', ''keyword'',
      ''Slice'', ''ExtSlice'', ''Index'',
      ''Subscript'',
      ''JoinedStr'', ''FormattedValue''}"

definition ALLOWED_NAMES :: "string set" where
  "ALLOWED_NAMES =
     set (map fst ALLOWED_BUILTINS)
     \<union> {''x'', ''s'', ''a'', ''b'', ''t'', ''d'', ''nums'', ''s1'', ''s2'', ''r'', ''ba'', ''fs''}"

definition ALLOWED_CALLS :: "string set" where
  "ALLOWED_CALLS =
     {''len'', ''sum'', ''min'', ''max'', ''sorted'', ''range'', ''set'', ''dict'', ''list'',
      ''tuple'', ''bytes'', ''bytearray''}"

text \<open>
  \<open>_validate_ast\<close>: the body of its loop is \<open>validate_node\<close>, the loop over
  \<open>ast.walk(tree)\<close> is \<open>validate_nodes\<close>, which stops at the first node that raises.
  \<^verbatim>\<open>for node in ast.walk(tree):
      if not isinstance(node, ALLOWED_NODES):
          raise ValueError(...)
      if isinstance(node, ast.Call):
          if isinstance(node.func, ast.Name):
              if node.func.id not in ALLOWED_CALLS:
                  raise ValueError(...)
          else:
              raise ValueError(...)
      if isinstance(node, ast.Name):
          if node.id not in ALLOWED_NAMES:
              raise ValueError(...)\<close>
\<close>

definition validate_node :: "ast \<Rightarrow> exn + unit" where
  "validate_node node =
     (if class_name node \<notin> ALLOWED_NODES
      then Inl (ValueError (Disallowed_element (class_name node)))
      else
        (case (case node of
                 Call func args keywords \<Rightarrow>
                   (case func of
                      Name ident ctx \<Rightarrow>
                        (if ident \<notin> ALLOWED_CALLS
                         then Inl (ValueError (Disallowed_call ident)) else Inr ())
                    | _ \<Rightarrow> Inl (ValueError Only_simple_calls))
               | _ \<Rightarrow> Inr ()) of
           Inl e \<Rightarrow> Inl e
         | Inr u \<Rightarrow>
             (case node of
                Name ident ctx \<Rightarrow>
                  (if ident \<notin> ALLOWED_NAMES
                   then Inl (ValueError (Disallowed_name ident)) else Inr ())
              | _ \<Rightarrow> Inr ())))"

fun validate_nodes :: "ast list \<Rightarrow> exn + unit" where
  "validate_nodes [] = Inr ()"
| "validate_nodes (node # nodes) =
     (case validate_node node of Inl e \<Rightarrow> Inl e | Inr u \<Rightarrow> validate_nodes nodes)"

definition validate_ast :: "ast \<Rightarrow> exn + unit" where
  "validate_ast tree = validate_nodes (walk [tree])"

text \<open>\<open>node_of tree n\<close>: the node \<open>n\<close> occurs in \<open>tree\<close>, at any depth.\<close>

inductive node_of :: "ast \<Rightarrow> ast \<Rightarrow> bool" where
  root: "node_of tree tree"
| child: "node_of tree n \<Longrightarrow> c \<in> set (iter_child_nodes n) \<Longrightarrow> node_of tree c"

section \<open>Restricted evaluation\<close>

text \<open>
  The Python runtime that \<open>main.py\<close> calls is a parameter of the model:
  \<^item> \<open>parse_eval s\<close> is the body of the \<open>ast.Expression\<close> node that
    \<open>ast.parse(s, mode='eval')\<close> returns, or the exception it raises;
  \<^item> \<open>eval_code tree globals locals\<close> is \<open>eval(compile(tree, ...), globals, locals)\<close>;
  \<^item> \<open>exec_source source globals locals\<close> is \<open>exec(source, globals, locals)\<close>;
  \<^item> \<open>equals\<close> is the operator \<open>==\<close>.
  Evaluation and execution read and change the heap, which they take and return.
\<close>

record runtime =
  parse_eval :: "string \<Rightarrow> exn + ast"
  eval_code :: "ast \<Rightarrow> env \<Rightarrow> env \<Rightarrow> heap \<Rightarrow> (exn + pyval) \<times> heap"
  exec_source :: "string \<Rightarrow> env \<Rightarrow> env \<Rightarrow> heap \<Rightarrow> (exn + unit) \<times> heap"
  equals :: "heap \<Rightarrow> pyval \<Rightarrow> pyval \<Rightarrow> bool"

text \<open>
  \<open>safe_eval\<close>. \<open>safe_eval_globals\<close> is its part that builds \<open>globals_env\<close>
  from the built-ins and the environment, or raises on a key outside \<open>ALLOWED_NAMES\<close>;
  an environment that is \<open>None\<close> or empty is falsy and is skipped.
  \<^verbatim>\<open>expr = expr.strip()
  if not expr:
      raise ValueError(...)
  tree = ast.parse(expr, mode='eval')
  _validate_ast(tree)
  globals_env = {**ALLOWED_BUILTINS}
  locals_env = {}
  if env:
      for k, v in env.items():
          if k not in ALLOWED_NAMES:
              raise ValueError(...)
      globals_env.update(env)
  return eval(compile(tree, filename='<expr>', mode='eval'), globals_env, locals_env)\<close>
\<close>

definition safe_eval_globals :: "env option \<Rightarrow> exn + env" where
  "safe_eval_globals env =
     (let globals_env = ALLOWED_BUILTINS in
      case env of
        None \<Rightarrow> Inr globals_env
      | Some d \<Rightarrow>
          (if d = [] then Inr globals_env
           else (case find (\<lambda>k. k \<notin> ALLOWED_NAMES) (map fst d) of
                   Some k \<Rightarrow> Inl (ValueError (Disallowed_env_name k))
                 | None \<Rightarrow> Inr (fold (\<lambda>(k, v). AList.update k v) d globals_env))))"

definition safe_eval ::
  "runtime \<Rightarrow> string \<Rightarrow> env option \<Rightarrow> heap \<Rightarrow> (exn + pyval) \<times> heap" where
  "safe_eval rt expr env h =
     (let expr = strip expr in
      if expr = [] then (Inl (ValueError Empty_expression), h)
      else
        (case parse_eval rt expr of
           Inl e \<Rightarrow> (Inl e, h)
         | Inr body \<Rightarrow>
             (let tree = Expression body in
              case validate_ast tree of
                Inl e \<Rightarrow> (Inl e, h)
              | Inr u \<Rightarrow>
                  (case safe_eval_globals env of
                     Inl e \<Rightarrow> (Inl e, h)
                   | Inr globals_env \<Rightarrow> eval_code rt tree globals_env [] h))))"

section \<open>Checkers\<close>

text \<open>
  A checker returns the pair \<open>(ok, message)\<close>. The messages are Russian texts; each
  template is a constructor holding what the template interpolates:
  \<^item> \<open>Correct\<close>: "right!";
  \<^item> \<open>Expected_text exp\<close>: "expected: exp" (\<open>check_exact\<close>, \<open>check_textio\<close>);
  \<^item> \<open>Parse_eval_error e\<close>: "parse/evaluation error: e" (\<open>check_eval_equals\<close>);
  \<^item> \<open>Correct_got val expected\<close>, \<open>Wrong_got val expected\<close>: "right!" or "wrong."
    followed by "got val, expected expected" (\<open>check_eval_equals\<close>);
  \<^item> \<open>Eval_error e\<close>: "error: e" (\<open>check_eval_predicate\<close>);
  \<^item> \<open>Wrong_expected s\<close>: "wrong. expected: s" (\<open>check_eval_predicate\<close>);
  \<^item> \<open>Wrong_nums\<close>, \<open>Wrong_bytearray\<close>: the failure texts of the two inline checkers;
  \<^item> \<open>Check_error e\<close>: "check error: e" (\<open>run_tasks\<close>).

  A checker that runs Python code takes and returns the heap, and returns \<open>Inl e\<close>
  when the exception \<open>e\<close> leaves it.
\<close>

datatype message =
    Correct
  | Expected_text string
  | Parse_eval_error exn
  | Correct_got pyval pyval
  | Wrong_got pyval pyval
  | Eval_error exn
  | Wrong_expected string
  | Wrong_nums
  | Wrong_bytearray
  | Check_error exn

type_synonym verdict = "bool \<times> message"

type_synonym checker = "string \<Rightarrow> heap \<Rightarrow> (exn + verdict) \<times> heap"

definition check_exact :: "string \<Rightarrow> string \<Rightarrow> verdict" where
  "check_exact expected ans =
     (let exp = strip expected;
          ok = (strip ans = exp)
      in (ok, if ok then Correct else Expected_text exp))"

definition check_textio :: "string list \<Rightarrow> string \<Rightarrow> verdict" where
  "check_textio expected_lines ans =
     (let exp = map strip expected_lines;
          got = map strip (filter (\<lambda>x. strip x \<noteq> []) (split (CHR '';'') (strip ans)));
          ok = (got = exp)
      in (ok, if ok then Correct else Expected_text (join ''; '' exp)))"

text \<open>
  \<open>except Exception as e\<close> catches \<open>e\<close> when \<open>is_Exception e\<close>; any other exception
  leaves the checker.
\<close>

definition check_eval_equals :: "runtime \<Rightarrow> env \<Rightarrow> pyval \<Rightarrow> checker" where
  "check_eval_equals rt env expected ans h =
     (case safe_eval rt ans (Some env) h of
        (Inl e, h') \<Rightarrow>
          (if is_Exception e then (Inr (False, Parse_eval_error e), h') else (Inl e, h'))
      | (Inr val, h') \<Rightarrow>
          (let ok = equals rt h' val expected
           in (Inr (ok, if ok then Correct_got val expected else Wrong_got val expected), h')))"

definition check_eval_predicate ::
  "runtime \<Rightarrow> env \<Rightarrow> (heap \<Rightarrow> pyval \<Rightarrow> exn + bool) \<Rightarrow> string \<Rightarrow> checker" where
  "check_eval_predicate rt env predicate expected_str ans h =
     (case safe_eval rt ans (Some env) h of
        (Inl e, h') \<Rightarrow>
          (if is_Exception e then (Inr (False, Eval_error e), h') else (Inl e, h'))
      | (Inr val, h') \<Rightarrow>
          (case predicate h' val of
             Inl e \<Rightarrow> (Inl e, h')
           | Inr ok \<Rightarrow> (Inr (ok, if ok then Correct else Wrong_expected expected_str), h')))"

text \<open>
  The comparisons of the inline checkers and of the predicate of \<open>list_copy\<close>:
  \<open>int_equals v k\<close> is \<open>v == k\<close> for an integer literal \<open>k\<close> (a \<open>bool\<close> is
  an integer), \<open>equals_int_list h v ks\<close> is \<open>v == [k1, ..., kn]\<close>,
  \<open>equals_bytearray h v bs\<close> is \<open>v == bytearray(bs)\<close>.
\<close>

fun int_equals :: "pyval \<Rightarrow> int \<Rightarrow> bool" where
  "int_equals (PInt i) k = (i = k)"
| "int_equals (PBool b) k = ((if b then 1 else 0) = k)"
| "int_equals _ k = False"

definition isinstance_list :: "heap \<Rightarrow> pyval \<Rightarrow> bool" where
  "isinstance_list h v =
     (case v of
        PRef a \<Rightarrow> (case deref h a of Some (OList xs) \<Rightarrow> True | _ \<Rightarrow> False)
      | _ \<Rightarrow> False)"

definition equals_int_list :: "heap \<Rightarrow> pyval \<Rightarrow> int list \<Rightarrow> bool" where
  "equals_int_list h v ks =
     (case v of
        PRef a \<Rightarrow> (case deref h a of Some (OList xs) \<Rightarrow> list_all2 int_equals xs ks | _ \<Rightarrow> False)
      | _ \<Rightarrow> False)"


text \<open>
  The task \<open>list_copy\<close>:
  \<^verbatim>\<open>check_eval_predicate({'a': [1,2,3]},
      lambda v: isinstance(v, list) and v == [1,2,3] and v is not None, ...)\<close>
  The list of its environment is created when the module is loaded; \<open>tasks_heap\<close> is
  the heap that holds it, at address 0. The fourth argument is a Russian text ("a list
  copy"), transliterated.
\<close>

definition tasks_heap :: heap where
  "tasks_heap = [OList [PInt 1, PInt 2, PInt 3]]"

definition list_copy_predicate :: "heap \<Rightarrow> pyval \<Rightarrow> exn + bool" where
  "list_copy_predicate h v =
     Inr (isinstance_list h v \<and> equals_int_list h v [1, 2, 3] \<and> v \<noteq> PNone)"

definition list_copy_checker :: "runtime \<Rightarrow> checker" where
  "list_copy_checker rt =
     check_eval_predicate rt [(''a'', PRef 0)] list_copy_predicate ''spisok-kopiya''"






section \<open>A runtime for a fragment of Python\<close>

text \<open>
  \<open>py\<close> is a runtime to evaluate the checkers on concrete answers. It follows CPython
  on a fragment of the language: integer and string literals, names, list displays,
  the operators \<open>+ - * // % **\<close> and unary \<open>+ - ~\<close> (evaluated on integers),
  indexing, slices without a step, attribute references, calls with positional
  arguments (\<open>ord\<close> and \<open>len\<close> are evaluated), and as statements an expression or one
  assignment to a name, an index or a whole slice of a list. Outside the fragment it
  answers \<open>not_modelled\<close>, which is no exception of Python and says nothing about
  CPython.
\<close>

definition not_modelled :: exn where
  "not_modelled = Exn [''NotModelled''] (Library_text ''outside the modelled fragment'')"

subsection \<open>Tokens\<close>

datatype token = TName string | TInt int | TStr string | TOp string

datatype lex_state = Idle | InInt nat | InName string | InStr char string | InOp char

definition is_digit :: "char \<Rightarrow> bool" where
  "is_digit c = (48 \<le> (of_char c :: nat) \<and> (of_char c :: nat) \<le> 57)"

definition is_name_start :: "char \<Rightarrow> bool" where
  "is_name_start c =
     (let k = (of_char c :: nat) in (65 \<le> k \<and> k \<le> 90) \<or> (97 \<le> k \<and> k \<le> 122) \<or> k = 95)"

definition lex_begin :: "char \<Rightarrow> (token list \<times> lex_state) option" where
  "lex_begin c =
     (if c = CHR '' '' then Some ([], Idle)
      else if is_digit c then Some ([], InInt (of_char c - 48))
      else if is_name_start c then Some ([], InName [c])
      else if c = CHR 0x27 \<or> c = CHR 0x22 then Some ([], InStr c [])
      else if c = CHR ''*'' \<or> c = CHR ''/'' then Some ([], InOp c)
      else if c \<in> set ''()[]:,.=+-%~'' then Some ([TOp [c]], Idle)
      else None)"

definition after :: "token list \<Rightarrow> char \<Rightarrow> (token list \<times> lex_state) option" where
  "after out c = (case lex_begin c of None \<Rightarrow> None | Some (ts, st) \<Rightarrow> Some (out @ ts, st))"

fun lex_step :: "lex_state \<Rightarrow> char \<Rightarrow> (token list \<times> lex_state) option" where
  "lex_step Idle c = lex_begin c"
| "lex_step (InInt n) c =
     (if is_digit c then (if n = 0 then None else Some ([], InInt (10 * n + (of_char c - 48))))
      else if is_name_start c \<or> c = CHR ''.'' then None
      else after [TInt (int n)] c)"
| "lex_step (InName w) c =
     (if is_name_start c \<or> is_digit c then Some ([], InName (w @ [c]))
      else if c = CHR 0x27 \<or> c = CHR 0x22 then None
      else after [TName w] c)"
| "lex_step (InStr q w) c =
     (if c = q then Some ([TStr w], Idle)
      else if c = CHR 0x5C \<or> 127 < (of_char c :: nat) \<or> (of_char c :: nat) < 32 then None
      else Some ([], InStr q (w @ [c])))"
| "lex_step (InOp p) c =
     (if c = p then Some ([TOp [p, p]], Idle)
      else if p = CHR ''*'' then after [TOp ''*''] c
      else None)"

fun lex_end :: "lex_state \<Rightarrow> token list option" where
  "lex_end Idle = Some []"
| "lex_end (InInt n) = Some [TInt (int n)]"
| "lex_end (InName w) = Some [TName w]"
| "lex_end (InStr q w) = None"
| "lex_end (InOp p) = None"

fun lex :: "lex_state \<Rightarrow> string \<Rightarrow> token list option" where
  "lex st [] = lex_end st"
| "lex st (c # cs) =
     (case lex_step st c of
        None \<Rightarrow> None
      | Some (out, st') \<Rightarrow> (case lex st' cs of None \<Rightarrow> None | Some ts \<Rightarrow> Some (out @ ts)))"

subsection \<open>Parser\<close>

definition py_keywords :: "string set" where
  "py_keywords =
     {''and'', ''as'', ''assert'', ''async'', ''await'', ''break'', ''class'', ''continue'',
      ''def'', ''del'', ''elif'', ''else'', ''except'', ''finally'', ''for'', ''from'',
      ''global'', ''if'', ''import'', ''in'', ''is'', ''lambda'', ''nonlocal'', ''not'', ''or'',
      ''pass'', ''raise'', ''return'', ''try'', ''while'', ''with'', ''yield''}"

definition name_atom :: "string \<Rightarrow> ast option" where
  "name_atom w =
     (if w = ''None'' then Some (Constant CNone)
      else if w = ''True'' then Some (Constant (CBool True))
      else if w = ''False'' then Some (Constant (CBool False))
      else if w \<in> py_keywords then None
      else Some (Name w Load))"

definition next_is :: "string \<Rightarrow> token list \<Rightarrow> bool" where
  "next_is p ts = (case ts of [] \<Rightarrow> False | t # r \<Rightarrow> t = TOp p)"

definition simple_atom :: "token list \<Rightarrow> (ast \<times> token list) option" where
  "simple_atom ts =
     (case ts of
        TInt i # r \<Rightarrow> Some (Constant (CInt i), r)
      | TStr s # r \<Rightarrow> (case r of TStr s' # r' \<Rightarrow> None | _ \<Rightarrow> Some (Constant (CStr s), r))
      | TName w # r \<Rightarrow> (case name_atom w of None \<Rightarrow> None | Some e \<Rightarrow> Some (e, r))
      | _ \<Rightarrow> None)"

definition binop_of :: "string \<Rightarrow> operator option" where
  "binop_of p =
     (if p = ''*'' then Some Mult else if p = ''//'' then Some FloorDiv
      else if p = ''%'' then Some Mod else if p = ''+'' then Some Add
      else if p = ''-'' then Some Sub else None)"

definition unaryop_of :: "string \<Rightarrow> unaryop option" where
  "unaryop_of p =
     (if p = ''-'' then Some USub else if p = ''+'' then Some UAdd
      else if p = ''~'' then Some Invert else None)"

definition attribute_name :: "token list \<Rightarrow> string option" where
  "attribute_name ts =
     (case ts of TName w # r \<Rightarrow> (if w \<in> py_keywords then None else Some w) | _ \<Rightarrow> None)"

text \<open>
  Recursive descent, following the grammar of the language reference (\<open>power\<close>,
  \<open>factor\<close>, \<open>term\<close>, \<open>arith_expr\<close>). \<open>rec\<close> is the parser for a nested expression;
  the number bounds the length of a chain of trailers, operators or elements, and
  \<open>p_expr n\<close> allows \<open>n\<close> levels of nesting.
\<close>

type_synonym 'a parser = "token list \<Rightarrow> ('a \<times> token list) option"

fun p_elems :: "ast parser \<Rightarrow> nat \<Rightarrow> string \<Rightarrow> ast list parser" where
  "p_elems rec 0 close ts = None"
| "p_elems rec (Suc n) close ts =
     (if next_is close ts then Some ([], tl ts)
      else (case rec ts of
              None \<Rightarrow> None
            | Some (e, r) \<Rightarrow>
                if next_is close r then Some ([e], tl r)
                else if next_is '','' r then
                  (case p_elems rec n close (tl r) of
                     None \<Rightarrow> None
                   | Some (es, r') \<Rightarrow> Some (e # es, r'))
                else None))"

definition p_upper :: "ast parser \<Rightarrow> ast option \<Rightarrow> ast parser" where
  "p_upper rec lower ts =
     (if next_is '']'' ts then Some (Slice lower None None, tl ts)
      else (case rec ts of
              None \<Rightarrow> None
            | Some (u, r) \<Rightarrow>
                if next_is '']'' r then Some (Slice lower (Some u) None, tl r) else None))"

definition p_subscript :: "ast parser \<Rightarrow> ast parser" where
  "p_subscript rec ts =
     (if next_is '':'' ts then p_upper rec None (tl ts)
      else (case rec ts of
              None \<Rightarrow> None
            | Some (e, r) \<Rightarrow>
                if next_is '']'' r then Some (e, tl r)
                else if next_is '':'' r then p_upper rec (Some e) (tl r)
                else None))"

fun p_trailers :: "ast parser \<Rightarrow> nat \<Rightarrow> ast \<Rightarrow> ast parser" where
  "p_trailers rec 0 e ts = None"
| "p_trailers rec (Suc n) e ts =
     (if next_is ''['' ts then
        (case p_subscript rec (tl ts) of
           None \<Rightarrow> None
         | Some (sl, r) \<Rightarrow> p_trailers rec n (Subscript e sl Load) r)
      else if next_is ''('' ts then
        (case p_elems rec (Suc n) '')'' (tl ts) of
           None \<Rightarrow> None
         | Some (args, r) \<Rightarrow> p_trailers rec n (Call e args []) r)
      else if next_is ''.'' ts then
        (case attribute_name (tl ts) of
           None \<Rightarrow> None
         | Some w \<Rightarrow> p_trailers rec n (Attribute e w Load) (tl (tl ts)))
      else Some (e, ts))"

definition p_atom :: "ast parser \<Rightarrow> nat \<Rightarrow> ast parser" where
  "p_atom rec n ts =
     (if next_is ''('' ts then
        (case rec (tl ts) of
           None \<Rightarrow> None
         | Some (e, r) \<Rightarrow> if next_is '')'' r then Some (e, tl r) else None)
      else if next_is ''['' ts then
        (case p_elems rec n '']'' (tl ts) of
           None \<Rightarrow> None
         | Some (es, r) \<Rightarrow> Some (List es Load, r))
      else simple_atom ts)"

definition leading_unaryop :: "token list \<Rightarrow> unaryop option" where
  "leading_unaryop ts = (case ts of TOp p # r \<Rightarrow> unaryop_of p | _ \<Rightarrow> None)"

definition leading_binop :: "string set \<Rightarrow> token list \<Rightarrow> operator option" where
  "leading_binop ps ts =
     (case ts of TOp p # r \<Rightarrow> (if p \<in> ps then binop_of p else None) | _ \<Rightarrow> None)"

fun p_factor :: "ast parser \<Rightarrow> nat \<Rightarrow> ast parser" where
  "p_factor rec 0 ts = None"
| "p_factor rec (Suc n) ts =
     (case leading_unaryop ts of
        Some op \<Rightarrow>
          (case p_factor rec n (tl ts) of
             None \<Rightarrow> None
           | Some (e, r) \<Rightarrow> Some (UnaryOp op e, r))
      | None \<Rightarrow>
          (case p_atom rec (Suc n) ts of
             None \<Rightarrow> None
           | Some (a, r) \<Rightarrow>
               (case p_trailers rec (Suc n) a r of
                  None \<Rightarrow> None
                | Some (e, r') \<Rightarrow>
                    if next_is ''**'' r' then
                      (case p_factor rec n (tl r') of
                         None \<Rightarrow> None
                       | Some (x, r'') \<Rightarrow> Some (BinOp e PowOp x, r''))
                    else Some (e, r'))))"

fun p_term_rest :: "ast parser \<Rightarrow> nat \<Rightarrow> ast \<Rightarrow> ast parser" where
  "p_term_rest rec 0 l ts = None"
| "p_term_rest rec (Suc n) l ts =
     (case leading_binop {''*'', ''//'', ''%''} ts of
        Some op \<Rightarrow>
          (case p_factor rec (Suc n) (tl ts) of
             None \<Rightarrow> None
           | Some (e, r) \<Rightarrow> p_term_rest rec n (BinOp l op e) r)
      | None \<Rightarrow> Some (l, ts))"

definition p_term :: "ast parser \<Rightarrow> nat \<Rightarrow> ast parser" where
  "p_term rec n ts =
     (case p_factor rec n ts of None \<Rightarrow> None | Some (l, r) \<Rightarrow> p_term_rest rec n l r)"

fun p_arith_rest :: "ast parser \<Rightarrow> nat \<Rightarrow> ast \<Rightarrow> ast parser" where
  "p_arith_rest rec 0 l ts = None"
| "p_arith_rest rec (Suc n) l ts =
     (case leading_binop {''+'', ''-''} ts of
        Some op \<Rightarrow>
          (case p_term rec (Suc n) (tl ts) of
             None \<Rightarrow> None
           | Some (e, r) \<Rightarrow> p_arith_rest rec n (BinOp l op e) r)
      | None \<Rightarrow> Some (l, ts))"

definition p_arith :: "ast parser \<Rightarrow> nat \<Rightarrow> ast parser" where
  "p_arith rec n ts =
     (case p_term rec n ts of None \<Rightarrow> None | Some (l, r) \<Rightarrow> p_arith_rest rec n l r)"

primrec p_expr :: "nat \<Rightarrow> ast parser" where
  "p_expr 0 = (\<lambda>ts. None)"
| "p_expr (Suc n) = p_arith (p_expr n) (Suc n)"

definition fuel :: "token list \<Rightarrow> nat" where
  "fuel ts = length ts + 2"

definition py_parse_eval :: "string \<Rightarrow> exn + ast" where
  "py_parse_eval s =
     (case lex Idle s of
        None \<Rightarrow> Inl not_modelled
      | Some ts \<Rightarrow>
          (case p_expr (fuel ts) ts of
             None \<Rightarrow> Inl not_modelled
           | Some (e, r) \<Rightarrow> if r = [] then Inr e else Inl not_modelled))"

fun store_target :: "ast \<Rightarrow> ast option" where
  "store_target (Name w ctx) = Some (Name w Store)"
| "store_target (Subscript v sl ctx) = Some (Subscript v sl Store)"
| "store_target (Attribute v attr ctx) = Some (Attribute v attr Store)"
| "store_target _ = None"

definition py_parse_exec :: "string \<Rightarrow> exn + ast" where
  "py_parse_exec s =
     (case lex Idle s of
        None \<Rightarrow> Inl not_modelled
      | Some ts \<Rightarrow>
          (if s = [] \<or> hd s = CHR '' '' then Inl not_modelled
           else (case p_expr (fuel ts) ts of
                   None \<Rightarrow> Inl not_modelled
                 | Some (e, r) \<Rightarrow>
                     if r = [] then Inr (Module [Expr e])
                     else if next_is ''='' r then
                       (case (store_target e, p_expr (fuel ts) (tl r)) of
                          (Some target, Some (v, r')) \<Rightarrow>
                            if r' = [] then Inr (Module [Assign [target] v]) else Inl not_modelled
                        | _ \<Rightarrow> Inl not_modelled)
                     else Inl not_modelled)))"

subsection \<open>Evaluation and execution\<close>

definition IndexError_class :: "string list" where
  "IndexError_class =
     [''IndexError'', ''LookupError'', ''Exception'', ''BaseException'', ''object'']"

definition ZeroDivisionError_class :: "string list" where
  "ZeroDivisionError_class =
     [''ZeroDivisionError'', ''ArithmeticError'', ''Exception'', ''BaseException'', ''object'']"

definition raise_error :: "string list \<Rightarrow> string \<Rightarrow> exn" where
  "raise_error cls descr = Exn cls (Library_text descr)"

text \<open>Index normalisation of a sequence of length n: a negative index counts from the end.\<close>

definition seq_index :: "nat \<Rightarrow> int \<Rightarrow> nat option" where
  "seq_index n i =
     (let j = (if i < 0 then i + int n else i)
      in if 0 \<le> j \<and> j < int n then Some (nat j) else None)"

definition int_binop :: "operator \<Rightarrow> int \<Rightarrow> int \<Rightarrow> exn + pyval" where
  "int_binop op a b =
     (case op of
        Add \<Rightarrow> Inr (PInt (a + b))
      | Sub \<Rightarrow> Inr (PInt (a - b))
      | Mult \<Rightarrow> Inr (PInt (a * b))
      | FloorDiv \<Rightarrow>
          (if b = 0 then Inl (raise_error ZeroDivisionError_class ''integer division or modulo by zero'')
           else Inr (PInt (a div b)))
      | Mod \<Rightarrow>
          (if b = 0 then Inl (raise_error ZeroDivisionError_class ''integer division or modulo by zero'')
           else Inr (PInt (a mod b)))
      | PowOp \<Rightarrow> (if 0 \<le> b then Inr (PInt (a ^ nat b)) else Inl not_modelled)
      | _ \<Rightarrow> Inl not_modelled)"

definition lookup_name :: "string \<Rightarrow> env \<Rightarrow> env \<Rightarrow> exn + pyval" where
  "lookup_name w globals locals =
     (case map_of locals w of
        Some v \<Rightarrow> Inr v
      | None \<Rightarrow>
          (case map_of globals w of
             Some v \<Rightarrow> Inr v
           | None \<Rightarrow> if w \<in> {''ord'', ''len''} then Inr (PBuiltin w) else Inl not_modelled))"

definition call_builtin :: "string \<Rightarrow> pyval list \<Rightarrow> heap \<Rightarrow> exn + pyval" where
  "call_builtin f args h =
     (if f = ''ord'' then
        (case args of [PStr [c]] \<Rightarrow> Inr (PInt (int (of_char c))) | _ \<Rightarrow> Inl not_modelled)
      else if f = ''len'' then
        (case args of
           [PRef a] \<Rightarrow>
             (case deref h a of
                Some (OList xs) \<Rightarrow> Inr (PInt (int (length xs)))
              | Some (OBytearray bs) \<Rightarrow> Inr (PInt (int (length bs)))
              | None \<Rightarrow> Inl not_modelled)
         | [PStr s] \<Rightarrow> Inr (PInt (int (length s)))
         | _ \<Rightarrow> Inl not_modelled)
      else Inl not_modelled)"

definition load_item :: "pyval \<Rightarrow> pyval \<Rightarrow> heap \<Rightarrow> exn + pyval" where
  "load_item v i h =
     (case (v, i) of
        (PRef a, PInt k) \<Rightarrow>
          (case deref h a of
             Some (OList xs) \<Rightarrow>
               (case seq_index (length xs) k of
                  Some j \<Rightarrow> Inr (xs ! j)
                | None \<Rightarrow> Inl (raise_error IndexError_class ''list index out of range''))
           | Some (OBytearray bs) \<Rightarrow>
               (case seq_index (length bs) k of
                  Some j \<Rightarrow> Inr (PInt (int (bs ! j)))
                | None \<Rightarrow> Inl (raise_error IndexError_class ''bytearray index out of range''))
           | None \<Rightarrow> Inl not_modelled)
      | _ \<Rightarrow> Inl not_modelled)"

definition copy_object :: "pyval \<Rightarrow> heap \<Rightarrow> (exn + pyval) \<times> heap" where
  "copy_object v h =
     (case v of
        PRef a \<Rightarrow>
          (case deref h a of
             Some obj \<Rightarrow> (case alloc h obj of (b, h') \<Rightarrow> (Inr (PRef b), h'))
           | None \<Rightarrow> (Inl not_modelled, h))
      | _ \<Rightarrow> (Inl not_modelled, h))"

fun eval_expr :: "ast \<Rightarrow> env \<Rightarrow> env \<Rightarrow> heap \<Rightarrow> (exn + pyval) \<times> heap"
and eval_exprs :: "ast list \<Rightarrow> env \<Rightarrow> env \<Rightarrow> heap \<Rightarrow> (exn + pyval list) \<times> heap"
where
  "eval_expr (Constant c) g l h =
     (case c of
        CNone \<Rightarrow> (Inr PNone, h)
      | CBool b \<Rightarrow> (Inr (PBool b), h)
      | CInt i \<Rightarrow> (Inr (PInt i), h)
      | CStr s \<Rightarrow> (Inr (PStr s), h)
      | CBytes bs \<Rightarrow> (Inr (PBytes bs), h)
      | _ \<Rightarrow> (Inl not_modelled, h))"
| "eval_expr (Name w ctx) g l h = (lookup_name w g l, h)"
| "eval_expr (List elts ctx) g l h =
     (case eval_exprs elts g l h of
        (Inl e, h1) \<Rightarrow> (Inl e, h1)
      | (Inr vs, h1) \<Rightarrow> (case alloc h1 (OList vs) of (a, h2) \<Rightarrow> (Inr (PRef a), h2)))"
| "eval_expr (BinOp lhs op rhs) g l h =
     (case eval_expr lhs g l h of
        (Inl e, h1) \<Rightarrow> (Inl e, h1)
      | (Inr a, h1) \<Rightarrow>
          (case eval_expr rhs g l h1 of
             (Inl e, h2) \<Rightarrow> (Inl e, h2)
           | (Inr b, h2) \<Rightarrow>
               (case (a, b) of
                  (PInt x, PInt y) \<Rightarrow> (int_binop op x y, h2)
                | _ \<Rightarrow> (Inl not_modelled, h2))))"
| "eval_expr (UnaryOp op operand) g l h =
     (case eval_expr operand g l h of
        (Inl e, h1) \<Rightarrow> (Inl e, h1)
      | (Inr a, h1) \<Rightarrow>
          (case (op, a) of
             (USub, PInt x) \<Rightarrow> (Inr (PInt (- x)), h1)
           | (UAdd, PInt x) \<Rightarrow> (Inr (PInt x), h1)
           | _ \<Rightarrow> (Inl not_modelled, h1)))"
| "eval_expr (Subscript v sl ctx) g l h =
     (case eval_expr v g l h of
        (Inl e, h1) \<Rightarrow> (Inl e, h1)
      | (Inr obj, h1) \<Rightarrow>
          (if sl = Slice None None None then copy_object obj h1
           else (case eval_expr sl g l h1 of
                   (Inl e, h2) \<Rightarrow> (Inl e, h2)
                 | (Inr i, h2) \<Rightarrow> (load_item obj i h2, h2))))"
| "eval_expr (Call func args kws) g l h =
     (case eval_expr func g l h of
        (Inl e, h1) \<Rightarrow> (Inl e, h1)
      | (Inr f, h1) \<Rightarrow>
          (case eval_exprs args g l h1 of
             (Inl e, h2) \<Rightarrow> (Inl e, h2)
           | (Inr vs, h2) \<Rightarrow>
               (case f of
                  PBuiltin w \<Rightarrow> (if kws = [] then call_builtin w vs h2 else Inl not_modelled, h2)
                | _ \<Rightarrow> (Inl not_modelled, h2))))"
| "eval_expr _ g l h = (Inl not_modelled, h)"
| "eval_exprs [] g l h = (Inr [], h)"
| "eval_exprs (e # es) g l h =
     (case eval_expr e g l h of
        (Inl x, h1) \<Rightarrow> (Inl x, h1)
      | (Inr v, h1) \<Rightarrow>
          (case eval_exprs es g l h1 of
             (Inl x, h2) \<Rightarrow> (Inl x, h2)
           | (Inr vs, h2) \<Rightarrow> (Inr (v # vs), h2)))"

definition store_item :: "pyval \<Rightarrow> pyval \<Rightarrow> pyval \<Rightarrow> heap \<Rightarrow> (exn + unit) \<times> heap" where
  "store_item obj i v h =
     (case (obj, i) of
        (PRef a, PInt k) \<Rightarrow>
          (case deref h a of
             Some (OList xs) \<Rightarrow>
               (case seq_index (length xs) k of
                  Some j \<Rightarrow> (Inr (), h[a := OList (xs[j := v])])
                | None \<Rightarrow>
                    (Inl (raise_error IndexError_class ''list assignment index out of range''), h))
           | Some (OBytearray bs) \<Rightarrow>
               (case seq_index (length bs) k of
                  Some j \<Rightarrow>
                    (case v of
                       PInt b \<Rightarrow>
                         (if 0 \<le> b \<and> b < 256 then (Inr (), h[a := OBytearray (bs[j := nat b])])
                          else (Inl (raise_error ValueError_class ''byte must be in range(0, 256)''), h))
                     | _ \<Rightarrow> (Inl not_modelled, h))
                | None \<Rightarrow>
                    (Inl (raise_error IndexError_class ''bytearray index out of range''), h))
           | None \<Rightarrow> (Inl not_modelled, h))
      | _ \<Rightarrow> (Inl not_modelled, h))"

definition store_all :: "pyval \<Rightarrow> pyval \<Rightarrow> heap \<Rightarrow> (exn + unit) \<times> heap" where
  "store_all obj v h =
     (case (obj, v) of
        (PRef a, PRef b) \<Rightarrow>
          (case (deref h a, deref h b) of
             (Some (OList xs), Some (OList ys)) \<Rightarrow> (Inr (), h[a := OList ys])
           | _ \<Rightarrow> (Inl not_modelled, h))
      | _ \<Rightarrow> (Inl not_modelled, h))"

definition exec_stmt :: "ast \<Rightarrow> env \<Rightarrow> env \<Rightarrow> heap \<Rightarrow> (exn + env) \<times> heap" where
  "exec_stmt stmt g l h =
     (case stmt of
        Expr e \<Rightarrow>
          (case eval_expr e g l h of
             (Inl x, h1) \<Rightarrow> (Inl x, h1)
           | (Inr v, h1) \<Rightarrow> (Inr l, h1))
      | Assign targets e \<Rightarrow>
          (case eval_expr e g l h of
             (Inl x, h1) \<Rightarrow> (Inl x, h1)
           | (Inr v, h1) \<Rightarrow>
               (case targets of
                  [Name w ctx] \<Rightarrow> (Inr (AList.update w v l), h1)
                | [Subscript t sl ctx] \<Rightarrow>
                    (case eval_expr t g l h1 of
                       (Inl x, h2) \<Rightarrow> (Inl x, h2)
                     | (Inr obj, h2) \<Rightarrow>
                         (if sl = Slice None None None then
                            (case store_all obj v h2 of
                               (Inl x, h3) \<Rightarrow> (Inl x, h3)
                             | (Inr u, h3) \<Rightarrow> (Inr l, h3))
                          else
                            (case eval_expr sl g l h2 of
                               (Inl x, h3) \<Rightarrow> (Inl x, h3)
                             | (Inr i, h3) \<Rightarrow>
                                 (case store_item obj i v h3 of
                                    (Inl x, h4) \<Rightarrow> (Inl x, h4)
                                  | (Inr u, h4) \<Rightarrow> (Inr l, h4)))))
                | _ \<Rightarrow> (Inl not_modelled, h1)))
      | _ \<Rightarrow> (Inl not_modelled, h))"

fun exec_stmts :: "ast list \<Rightarrow> env \<Rightarrow> env \<Rightarrow> heap \<Rightarrow> (exn + env) \<times> heap" where
  "exec_stmts [] g l h = (Inr l, h)"
| "exec_stmts (s # ss) g l h =
     (case exec_stmt s g l h of
        (Inl x, h1) \<Rightarrow> (Inl x, h1)
      | (Inr l1, h1) \<Rightarrow> exec_stmts ss g l1 h1)"

definition py_eval_code :: "ast \<Rightarrow> env \<Rightarrow> env \<Rightarrow> heap \<Rightarrow> (exn + pyval) \<times> heap" where
  "py_eval_code tree g l h =
     (case tree of Expression body \<Rightarrow> eval_expr body g l h | _ \<Rightarrow> (Inl not_modelled, h))"

definition py_exec_source :: "string \<Rightarrow> env \<Rightarrow> env \<Rightarrow> heap \<Rightarrow> (exn + unit) \<times> heap" where
  "py_exec_source source g l h =
     (case py_parse_exec source of
        Inl x \<Rightarrow> (Inl x, h)
      | Inr tree \<Rightarrow>
          (case tree of
             Module body \<Rightarrow>
               (case exec_stmts body g l h of
                  (Inl x, h1) \<Rightarrow> (Inl x, h1)
                | (Inr l1, h1) \<Rightarrow> (Inr (), h1))
           | _ \<Rightarrow> (Inl not_modelled, h)))"

fun scalar_equals :: "pyval \<Rightarrow> pyval \<Rightarrow> bool" where
  "scalar_equals (PInt i) w = int_equals w i"
| "scalar_equals (PBool b) w = int_equals w (if b then 1 else 0)"
| "scalar_equals (PRef a) w = (w = PRef a)"
| "scalar_equals (PTuple xs) w = False"
| "scalar_equals v w = (v = w)"

definition py_equals :: "heap \<Rightarrow> pyval \<Rightarrow> pyval \<Rightarrow> bool" where
  "py_equals h v w =
     (case (v, w) of
        (PRef a, PRef b) \<Rightarrow>
          (case (deref h a, deref h b) of
             (Some (OList xs), Some (OList ys)) \<Rightarrow> list_all2 scalar_equals xs ys
           | (Some (OBytearray xs), Some (OBytearray ys)) \<Rightarrow> xs = ys
           | _ \<Rightarrow> False)
      | _ \<Rightarrow> scalar_equals v w)"

definition py :: runtime where
  "py = \<lparr>parse_eval = py_parse_eval, eval_code = py_eval_code,
         exec_source = py_exec_source, equals = py_equals\<rparr>"

section \<open>The parts of an answer\<close>

text \<open>
  The non-empty trimmed parts of a string split at semicolons, used to state what
  \<open>check_textio\<close> compares.
\<close>

definition segments :: "string \<Rightarrow> string list" where
  "segments s = filter (\<lambda>x. x \<noteq> []) (map strip (split (CHR '';'') s))"

section \<open>Properties of the textual checkers\<close>

lemma not_py_isspace_semicolon [simp]: "\<not> py_isspace (CHR '';'')"
  by (simp add: py_isspace_def)

lemma py_isspace_space [simp]: "py_isspace (CHR '' '')"
  by (simp add: py_isspace_def)

text \<open>
  C8. With the expected sequence \<open>["False", "True"]\<close>, the multi-result textual checker
  passes the answer \<open>False;True\<close>, passes \<open>False ; True\<close> as well (each part is trimmed
  before the comparison), and fails \<open>True;False\<close> (the comparison keeps the order).
\<close>

theorem check_textio_false_true:
  "fst (check_textio [''False'', ''True''] ''False;True'')
   \<and> fst (check_textio [''False'', ''True''] ''False ; True'')
   \<and> \<not> fst (check_textio [''False'', ''True''] ''True;False'')"
  by (simp add: check_textio_def strip_def py_isspace_def)

lemma split_not_Nil [simp]: "split sep s \<noteq> []"
  by (induction s) (auto split: list.splits)

lemma split_prefix: "sep \<notin> set ws \<Longrightarrow> split sep (ws @ s) = (ws @ hd (split sep s)) # tl (split sep s)"
  by (induction ws) (auto split: list.splits)

lemma split_suffix: "sep \<notin> set ws \<Longrightarrow> split sep (s @ ws) = butlast (split sep s) @ [last (split sep s) @ ws]"
proof (induction s)
  case Nil
  then show ?case using split_prefix [of sep ws "[]"] by simp
next
  case (Cons c s)
  then show ?case by (auto split: list.splits simp: butlast_append)
qed

lemma split_append_sep: "split sep (xs @ sep # ys) = split sep xs @ split sep ys"
  by (induction xs) (auto split: list.splits)

lemma strip_prefix: "\<forall>c\<in>set ws. py_isspace c \<Longrightarrow> strip (ws @ w) = strip w"
  by (simp add: strip_def dropWhile_append)

lemma strip_suffix: "\<forall>c\<in>set ws. py_isspace c \<Longrightarrow> strip (w @ ws) = strip w"
proof -
  assume a: "\<forall>c\<in>set ws. py_isspace c"
  have "dropWhile py_isspace (rev (dropWhile py_isspace (w @ ws))) = dropWhile py_isspace (rev (dropWhile py_isspace w))"
  proof (cases "\<forall>c\<in>set w. py_isspace c")
    case True
    with a have "dropWhile py_isspace (w @ ws) = []" and "dropWhile py_isspace w = []"
      by simp_all
    then show ?thesis by (simp only:)
  next
    case False
    then have "dropWhile py_isspace (w @ ws) = dropWhile py_isspace w @ ws"
      by (auto simp: dropWhile_append)
    with a show ?thesis by (simp add: dropWhile_append)
  qed
  then show ?thesis by (simp add: strip_def)
qed

lemma map_hd_tl: "l \<noteq> [] \<Longrightarrow> f (hd l) # map f (tl l) = map f l"
  by (cases l) simp_all

lemma map_butlast_last: "l \<noteq> [] \<Longrightarrow> map f (butlast l) @ [f (last l)] = map f l"
  by (induction l) simp_all

lemma map_strip_split_dropWhile:
  "map strip (split (CHR '';'') (dropWhile py_isspace s)) = map strip (split (CHR '';'') s)"
proof -
  let ?ws = "takeWhile py_isspace s" and ?r = "dropWhile py_isspace s"
  have ws: "\<forall>c\<in>set ?ws. py_isspace c" by (auto dest: set_takeWhileD)
  then have "CHR '';'' \<notin> set ?ws" by auto
  then have "split (CHR '';'') (?ws @ ?r) = (?ws @ hd (split (CHR '';'') ?r)) # tl (split (CHR '';'') ?r)"
    by (rule split_prefix)
  then have "map strip (split (CHR '';'') s) = strip (hd (split (CHR '';'') ?r)) # map strip (tl (split (CHR '';'') ?r))"
    using ws by (simp add: strip_prefix)
  then show ?thesis by (simp add: map_hd_tl)
qed

lemma map_strip_split_rstrip:
  "map strip (split (CHR '';'') (rev (dropWhile py_isspace (rev s)))) = map strip (split (CHR '';'') s)"
proof -
  let ?ws = "rev (takeWhile py_isspace (rev s))" and ?r = "rev (dropWhile py_isspace (rev s))"
  have s: "s = ?r @ ?ws"
    by (metis rev_append rev_rev_ident takeWhile_dropWhile_id)
  have ws: "\<forall>c\<in>set ?ws. py_isspace c" by (auto dest: set_takeWhileD)
  then have "CHR '';'' \<notin> set ?ws" by auto
  then have "split (CHR '';'') (?r @ ?ws) = butlast (split (CHR '';'') ?r) @ [last (split (CHR '';'') ?r) @ ?ws]"
    by (rule split_suffix)
  then have "map strip (split (CHR '';'') (?r @ ?ws)) = map strip (split (CHR '';'') ?r)"
    using ws by (simp add: strip_suffix map_butlast_last)
  then show ?thesis using s by simp
qed

lemma segments_strip: "segments (strip s) = segments s"
  by (simp add: segments_def strip_def map_strip_split_rstrip map_strip_split_dropWhile)

lemma segments_append_sep: "segments (xs @ CHR '';'' # ys) = segments xs @ segments ys"
  by (simp add: segments_def split_append_sep)

lemma segments_blank: "\<forall>c\<in>set ws. py_isspace c \<Longrightarrow> segments ws = []"
proof -
  assume ws: "\<forall>c\<in>set ws. py_isspace c"
  then have "CHR '';'' \<notin> set ws" by auto
  from split_prefix [OF this, of "[]"] have "split (CHR '';'') ws = [ws]" by simp
  moreover have "strip ws = []" using strip_prefix [OF ws, of "[]"] by (simp add: strip_def)
  ultimately show ?thesis by (simp add: segments_def)
qed

lemma check_textio_segments:
  "check_textio expected_lines ans =
     (segments ans = map strip expected_lines,
      if segments ans = map strip expected_lines then Correct
      else Expected_text (join ''; '' (map strip expected_lines)))"
proof -
  have "map strip (filter (\<lambda>x. strip x \<noteq> []) l) = filter (\<lambda>x. x \<noteq> []) (map strip l)" for l
    by (induction l) simp_all
  then show ?thesis
    using segments_strip [of ans] by (simp add: check_textio_def segments_def Let_def)
qed

text \<open>
  C10. The multi-result textual checker compares the parts of the answer that are not
  empty after trimming, each trimmed, with the trimmed expected lines: the verdict says
  whether the two sequences are equal. So a blank part between two separators, before a
  leading separator or after a trailing separator changes neither the compared
  sequence nor the verdict; the answer \<open>False;;True;\<close> passes against
  \<open>["False", "True"]\<close>, and \<open>True;;False;\<close> fails.
\<close>

theorem check_textio_drops_blank_segments:
  assumes "\<forall>c\<in>set ws. py_isspace c"
  shows "check_textio exp ans
       = (segments ans = map strip exp,
          if segments ans = map strip exp then Correct
          else Expected_text (join ''; '' (map strip exp)))
    \<and> segments (xs @ '';'' @ ws @ '';'' @ ys) = segments (xs @ '';'' @ ys)
    \<and> segments (ws @ '';'' @ ys) = segments ys
    \<and> segments (xs @ '';'' @ ws) = segments xs
    \<and> check_textio exp (xs @ '';'' @ ws @ '';'' @ ys) = check_textio exp (xs @ '';'' @ ys)
    \<and> check_textio exp (ws @ '';'' @ ys) = check_textio exp ys
    \<and> check_textio exp (xs @ '';'' @ ws) = check_textio exp xs
    \<and> segments ''False;;True;'' = [''False'', ''True'']
    \<and> fst (check_textio [''False'', ''True''] ''False;;True;'')
    \<and> \<not> fst (check_textio [''False'', ''True''] ''True;;False;'')"
proof -
  have "segments ''False;;True;'' = [''False'', ''True'']"
    by (simp add: segments_def strip_def py_isspace_def)
  moreover have "fst (check_textio [''False'', ''True''] ''False;;True;'')"
    by (simp add: check_textio_def strip_def py_isspace_def)
  moreover have "\<not> fst (check_textio [''False'', ''True''] ''True;;False;'')"
    by (simp add: check_textio_def strip_def py_isspace_def)
  moreover have "check_textio exp ans
       = (segments ans = map strip exp,
          if segments ans = map strip exp then Correct
          else Expected_text (join ''; '' (map strip exp)))"
    by (rule check_textio_segments)
  ultimately show ?thesis
    by (simp add: check_textio_segments segments_append_sep segments_blank [OF assms])
qed

text \<open>
  The theorem at the blank part of one space: an answer that passes with and without
  it, and an answer that fails with and without it.
\<close>

theorem check_textio_drops_blank_segments_witness:
  "segments (''a'' @ '';'' @ '' '' @ '';'' @ ''b'') = [''a'', ''b'']
   \<and> check_textio [''a'', ''b''] (''a'' @ '';'' @ '' '' @ '';'' @ ''b'') = (True, Correct)
   \<and> check_textio [''a'', ''b''] (''a'' @ '';'' @ ''b'') = (True, Correct)
   \<and> check_textio [''a'', ''b''] (''b'' @ '';'' @ '' '' @ '';'' @ ''a'')
       = (False, Expected_text ''a; b'')
   \<and> check_textio [''a'', ''b''] (''b'' @ '';'' @ ''a'') = (False, Expected_text ''a; b'')
   \<and> check_textio [''a'', ''b''] ('' '' @ '';'' @ ''a;b'') = check_textio [''a'', ''b''] ''a;b''
   \<and> check_textio [''a'', ''b''] (''a;b'' @ '';'' @ '' '') = check_textio [''a'', ''b''] ''a;b''"
proof -
  have h: "\<forall>c\<in>set '' ''. py_isspace c" by simp
  have a: "check_textio [''a'', ''b''] (''a'' @ '';'' @ ''b'') = (True, Correct)"
    by (simp add: check_textio_def strip_def py_isspace_def)
  have b: "check_textio [''a'', ''b''] (''b'' @ '';'' @ ''a'') = (False, Expected_text ''a; b'')"
    by (simp add: check_textio_def strip_def py_isspace_def)
  have c: "segments (''a'' @ '';'' @ ''b'') = [''a'', ''b'']"
    by (simp add: segments_def strip_def py_isspace_def)
  from a b c
    check_textio_drops_blank_segments [OF h, of "[''a'', ''b'']" _ "''a''" "''b''"]
    check_textio_drops_blank_segments [OF h, of "[''a'', ''b'']" _ "''b''" "''a''"]
    check_textio_drops_blank_segments [OF h, of "[''a'', ''b'']" _ "''a;b''" "''a;b''"]
  show ?thesis by simp
qed

lemma strip_blank: "\<forall>c\<in>set s. py_isspace c \<Longrightarrow> strip s = []"
  by (auto simp: strip_def dest: set_dropWhileD)

section \<open>Properties of the validator and of safe_eval\<close>

text \<open>
  The root of the tree that \<open>safe_eval\<close> validates is an \<open>Expression\<close> node, the first
  node \<open>ast.walk\<close> yields, and \<open>ALLOWED_NODES\<close> has \<open>Module\<close> and \<open>Expr\<close> but not
  \<open>Expression\<close>: validation rejects every parsed expression at its root, and
  \<open>safe_eval\<close> never reaches \<open>eval\<close>.
\<close>

lemma validate_ast_Expression:
  "validate_ast (Expression body) = Inl (ValueError (Disallowed_element ''Expression''))"
  by (simp add: validate_ast_def validate_node_def ALLOWED_NODES_def)

lemma safe_eval_stages:
  "safe_eval rt expr env h =
     (if strip expr = [] then (Inl (ValueError Empty_expression), h)
      else (case parse_eval rt (strip expr) of
              Inl e \<Rightarrow> (Inl e, h)
            | Inr body \<Rightarrow> (Inl (ValueError (Disallowed_element ''Expression'')), h)))"
  by (simp add: safe_eval_def Let_def validate_ast_Expression split: sum.splits)

lemma walk_superset: "set q \<subseteq> set (walk q)"
  by (induction q rule: walk.induct) auto

lemma walk_closed: "n \<in> set (walk q) \<Longrightarrow> set (iter_child_nodes n) \<subseteq> set (walk q)"
proof (induction q rule: walk.induct)
  case 1
  then show ?case by simp
next
  case (2 node todo)
  show ?case
  proof (cases "n = node")
    case True
    have "set (iter_child_nodes node) \<subseteq> set (walk (todo @ iter_child_nodes node))"
      using walk_superset [of "todo @ iter_child_nodes node"] by simp
    with True show ?thesis by auto
  next
    case False
    with 2 show ?thesis by auto
  qed
qed

lemma walk_visits_every_node: "node_of tree n \<Longrightarrow> n \<in> set (walk [tree])"
proof (induction rule: node_of.induct)
  case (root tree)
  then show ?case using walk_superset [of "[tree]"] by simp
next
  case (child tree n c)
  then show ?case using walk_closed by blast
qed

lemma validate_node_ValueError: "validate_node n = Inl e \<Longrightarrow> \<exists>m. e = ValueError m"
  by (auto simp: validate_node_def split: if_splits ast.splits sum.splits)

lemma validate_nodes_rejects:
  "n \<in> set ns \<Longrightarrow> validate_node n = Inl e \<Longrightarrow> \<exists>m. validate_nodes ns = Inl (ValueError m)"
proof (induction ns)
  case Nil
  then show ?case by simp
next
  case (Cons a ns)
  show ?case
  proof (cases "validate_node a")
    case (Inl x)
    then show ?thesis using validate_node_ValueError [of a x] by auto
  next
    case (Inr u)
    with Cons show ?thesis by auto
  qed
qed

lemma validate_node_call:
  assumes "(\<forall>ident ctx. func \<noteq> Name ident ctx)
           \<or> (\<exists>ident ctx. func = Name ident ctx \<and> ident \<notin> ALLOWED_CALLS)"
  shows "\<exists>e. validate_node (Call func args keywords) = Inl e"
  using assms by (cases func) (auto simp: validate_node_def)

text \<open>
  C4. Validation rejects every tree in which, at any depth, there is a call whose callee
  is not a bare name or whose bare callee name is outside \<open>ALLOWED_CALLS\<close>: the walk
  visits every node, so nesting the call does not hide it.
\<close>

theorem validate_ast_rejects_disallowed_call:
  assumes "node_of tree (Call func args keywords)"
    and "(\<forall>ident ctx. func \<noteq> Name ident ctx)
         \<or> (\<exists>ident ctx. func = Name ident ctx \<and> ident \<notin> ALLOWED_CALLS)"
  shows "\<exists>m. validate_ast tree = Inl (ValueError m)"
proof -
  from assms(2) obtain e where "validate_node (Call func args keywords) = Inl e"
    using validate_node_call by blast
  moreover have "Call func args keywords \<in> set (walk [tree])"
    using assms(1) by (rule walk_visits_every_node)
  ultimately show ?thesis
    unfolding validate_ast_def by (rule validate_nodes_rejects [rotated])
qed

text \<open>
  The theorem at \<open>len([a.copy()])\<close>, where a call through an attribute is nested in
  a list inside a permitted call, and at \<open>len([eval(x)])\<close>, where the nested call
  is to a name outside \<open>ALLOWED_CALLS\<close>.
\<close>

theorem validate_ast_rejects_disallowed_call_witness:
  "node_of (Call (Name ''len'' Load)
              [List [Call (Attribute (Name ''a'' Load) ''copy'' Load) [] []] Load] [])
           (Call (Attribute (Name ''a'' Load) ''copy'' Load) [] [])
   \<and> (\<exists>m. validate_ast (Call (Name ''len'' Load)
              [List [Call (Attribute (Name ''a'' Load) ''copy'' Load) [] []] Load] [])
            = Inl (ValueError m))
   \<and> node_of (Call (Name ''len'' Load)
              [List [Call (Name ''eval'' Load) [Name ''x'' Load] []] Load] [])
           (Call (Name ''eval'' Load) [Name ''x'' Load] [])
   \<and> ''eval'' \<notin> ALLOWED_CALLS
   \<and> (\<exists>m. validate_ast (Call (Name ''len'' Load)
              [List [Call (Name ''eval'' Load) [Name ''x'' Load] []] Load] [])
            = Inl (ValueError m))"
proof -
  let ?inner = "Call (Attribute (Name ''a'' Load) ''copy'' Load) [] []"
  let ?tree = "Call (Name ''len'' Load) [List [?inner] Load] []"
  have "node_of ?tree ?tree" by (rule node_of.root)
  then have "node_of ?tree (List [?inner] Load)" by (rule node_of.child) simp
  then have n: "node_of ?tree ?inner" by (rule node_of.child) simp
  have c: "(\<forall>ident ctx. Attribute (Name ''a'' Load) ''copy'' Load \<noteq> Name ident ctx)
        \<or> (\<exists>ident ctx. Attribute (Name ''a'' Load) ''copy'' Load = Name ident ctx
                         \<and> ident \<notin> ALLOWED_CALLS)" by simp
  let ?inner' = "Call (Name ''eval'' Load) [Name ''x'' Load] []"
  let ?tree' = "Call (Name ''len'' Load) [List [?inner'] Load] []"
  have "node_of ?tree' ?tree'" by (rule node_of.root)
  then have "node_of ?tree' (List [?inner'] Load)" by (rule node_of.child) simp
  then have n': "node_of ?tree' ?inner'" by (rule node_of.child) simp
  have e: "''eval'' \<notin> ALLOWED_CALLS" by (simp add: ALLOWED_CALLS_def)
  then have c': "(\<forall>ident ctx. Name ''eval'' Load \<noteq> Name ident ctx)
        \<or> (\<exists>ident ctx. Name ''eval'' Load = Name ident ctx \<and> ident \<notin> ALLOWED_CALLS)"
    by simp
  from n n' e validate_ast_rejects_disallowed_call [OF n c]
    validate_ast_rejects_disallowed_call [OF n' c']
  show ?thesis by blast
qed

text \<open>A tree with a permitted call and permitted names is accepted.\<close>

lemma validate_ast_accepts_len_call:
  "validate_ast (Call (Name ''len'' Load) [List [Name ''a'' Load] Load] []) = Inr ()"
  by (simp add: validate_ast_def validate_node_def ALLOWED_NODES_def ALLOWED_CALLS_def
      ALLOWED_NAMES_def ALLOWED_BUILTINS_def)

text \<open>
  C5. For an empty or whitespace-only string \<open>safe_eval\<close> raises the empty-expression
  error, whatever the parser of the runtime would answer on that string: the string is
  rejected before it is parsed.
\<close>

theorem safe_eval_blank_is_empty_expression:
  assumes "\<forall>c\<in>set expr. py_isspace c"
  shows "safe_eval rt expr env h = (Inl (ValueError Empty_expression), h)"
  using assms by (simp add: safe_eval_def strip_blank)

text \<open>The theorem at a string of three spaces.\<close>

theorem safe_eval_blank_is_empty_expression_witness:
  "safe_eval py ''   '' None [] = (Inl (ValueError Empty_expression), [])"
proof -
  have b: "\<forall>c\<in>set ''   ''. py_isspace c" by simp
  from safe_eval_blank_is_empty_expression [OF b, of py None "[]"] show ?thesis .
qed

lemma safe_eval_heap: "snd (safe_eval rt expr env h) = h"
  by (simp add: safe_eval_stages split: sum.splits)

lemma safe_eval_heap_independent: "fst (safe_eval rt expr env h) = fst (safe_eval rt expr env h')"
  by (simp add: safe_eval_stages split: sum.splits)

lemma check_eval_equals_heap: "snd (check_eval_equals rt env expected ans h) = h"
  by (simp add: check_eval_equals_def safe_eval_stages split: sum.splits)

text \<open>
  C9. Evaluating the same snippet against the same environment twice gives the same
  result: \<open>safe_eval\<close> and \<open>check_eval_equals\<close> leave the heap as it was, so the second
  call starts from the state of the first and returns what the first returned.
\<close>

theorem safe_eval_repeatable:
  "snd (safe_eval rt expr env h) = h
   \<and> safe_eval rt expr env (snd (safe_eval rt expr env h)) = safe_eval rt expr env h
   \<and> snd (check_eval_equals rt e expected ans h) = h
   \<and> check_eval_equals rt e expected ans (snd (check_eval_equals rt e expected ans h))
       = check_eval_equals rt e expected ans h"
  by (simp add: safe_eval_heap check_eval_equals_heap)

lemma zz_not_allowed: "''zz'' \<notin> ALLOWED_NAMES"
  by (simp add: ALLOWED_NAMES_def ALLOWED_BUILTINS_def)

text \<open>
  C7. The claim is that an environment with a key outside \<open>ALLOWED_NAMES\<close> makes the
  evaluation fail with the error that names that key. With the environment
  \<open>{'a': 0, 'zz': 1}\<close> and the expression \<open>a\<close>, which parses to a permitted name,
  the check of the environment keys would raise the error that names \<open>zz\<close>; the code
  fails instead with the disallowed-element error for \<open>Expression\<close>, raised by the
  validation that runs before that check.
\<close>

theorem safe_eval_foreign_env_not_named:
  "''zz'' \<notin> ALLOWED_NAMES
   \<and> py_parse_eval ''a'' = Inr (Name ''a'' Load)
   \<and> validate_ast (Name ''a'' Load) = Inr ()
   \<and> safe_eval_globals (Some [(''a'', PInt 0), (''zz'', PInt 1)])
       = Inl (ValueError (Disallowed_env_name ''zz''))
   \<and> safe_eval py ''a'' (Some [(''a'', PInt 0), (''zz'', PInt 1)]) []
       = (Inl (ValueError (Disallowed_element ''Expression'')), [])"
  by code_simp

section \<open>Properties of the checkers\<close>

text \<open>
  C6. The claim is that the semantic-equality checker with expected value 1024 passes
  \<open>2 ** 10\<close> and fails \<open>2 ** 9\<close> with a message that reports both values. The code
  fails both answers with the disallowed-element error for \<open>Expression\<close>, although
  \<open>2 ** 10\<close> parses and evaluates to 1024.
\<close>

theorem check_eval_equals_rejects_power:
  "check_eval_equals py [] (PInt 1024) ''2 ** 10'' []
     = (Inr (False, Parse_eval_error (ValueError (Disallowed_element ''Expression''))), [])
   \<and> check_eval_equals py [] (PInt 1024) ''2 ** 9'' []
     = (Inr (False, Parse_eval_error (ValueError (Disallowed_element ''Expression''))), [])
   \<and> py_parse_eval ''2 ** 10'' = Inr (BinOp (Constant (CInt 2)) PowOp (Constant (CInt 10)))
   \<and> py_eval_code (Expression (BinOp (Constant (CInt 2)) PowOp (Constant (CInt 10))))
        ALLOWED_BUILTINS [] [] = (Inr (PInt 1024), [])"
  by code_simp

text \<open>
  C3. The claim is that the checker of \<open>list_copy\<close> passes \<open>a[:]\<close> and \<open>a.copy()\<close>
  and fails \<open>a\<close>. The code fails all three with the disallowed-element error for
  \<open>Expression\<close>, although \<open>a[:]\<close> evaluates to a new list that satisfies the
  predicate; and the predicate, which compares with \<open>None\<close>, holds of the list \<open>a\<close>
  itself.
\<close>

theorem list_copy_checker_rejects_copies:
  "list_copy_checker py ''a[:]'' tasks_heap
     = (Inr (False, Eval_error (ValueError (Disallowed_element ''Expression''))), tasks_heap)
   \<and> list_copy_checker py ''a.copy()'' tasks_heap
     = (Inr (False, Eval_error (ValueError (Disallowed_element ''Expression''))), tasks_heap)
   \<and> list_copy_checker py ''a'' tasks_heap
     = (Inr (False, Eval_error (ValueError (Disallowed_element ''Expression''))), tasks_heap)
   \<and> py_parse_eval ''a[:]'' = Inr (Subscript (Name ''a'' Load) (Slice None None None) Load)
   \<and> py_eval_code (Expression (Subscript (Name ''a'' Load) (Slice None None None) Load))
        [(''a'', PRef 0)] [] tasks_heap = (Inr (PRef 1), tasks_heap @ [OList [PInt 1, PInt 2, PInt 3]])
   \<and> list_copy_predicate (tasks_heap @ [OList [PInt 1, PInt 2, PInt 3]]) (PRef 1) = Inr True
   \<and> list_copy_predicate tasks_heap (PRef 0) = Inr True"
  by code_simp









end
